theory Spec2Isabelle
  imports Main "HOL-Library.Sublist"
begin

section \<open>Values, errors and responses\<close>

text \<open>
  A value of a JSON or form body field as the handlers see it: absent (\<open>undefined\<close>),
  \<open>null\<close>, a boolean, a number or a string. \<open>JNum n\<close> is the JavaScript number \<open>n\<close>;
  JavaScript numbers are doubles, so \<open>n\<close> is an integer that a double represents (every
  integer of magnitude up to \<open>2 ^ 53\<close> is one). Numbers with a fraction, objects and arrays
  are not modelled.
\<close>

datatype jsval = JUndefined | JNull | JBool bool | JNum int | JStr string

text \<open>JavaScript truthiness, used by \<open>!x\<close> and \<open>x || y\<close>.\<close>

fun truthy :: "jsval \<Rightarrow> bool" where
  "truthy JUndefined = False"
| "truthy JNull = False"
| "truthy (JBool b) = b"
| "truthy (JNum n) = (n \<noteq> 0)"
| "truthy (JStr s) = (s \<noteq> [])"

text \<open>
  A value a column of the store holds: NULL, a 64-bit INTEGER, a REAL or TEXT. Of the
  reals only the integral ones occur here: a number that does not convert to a 64-bit
  integer stays REAL in a column of INTEGER affinity.
\<close>

datatype sqlval = SqlNull | SqlInteger int | SqlReal int | SqlText string

text \<open>Exceptions: what a \<open>catch\<close> block or the framework's \<open>next(err)\<close> receives.\<close>

datatype exn =
    Error string
  | TypeError string
  | MulterError string
  | SqliteError string
  | FsError string
  | JsonWebTokenError string
  | TokenExpiredError string

record claims =
  claim_id :: nat
  claim_username :: string
  claim_email :: string

text \<open>The payload \<open>jwt.sign\<close> is given: the email is the value the request sent.\<close>

record token_payload =
  payload_id :: nat
  payload_username :: string
  payload_email :: jsval

record category_json =
  json_id :: nat
  json_name :: string
  json_itemCount :: jsval
  json_image :: "string option"
  json_createdAt :: nat
  json_updatedAt :: nat

datatype body =
    Message string
  | Success string
  | TokenUser string claims
  | CategoryJson category_json
  | ErrorPage exn

record response =
  status :: nat
  body :: body

text \<open>
  What a middleware does with a request: call \<open>next()\<close> (passing on what it attached to
  the request), answer itself, or call \<open>next(err)\<close>.
\<close>

datatype 'a middleware_result = Next 'a | Respond response | NextErr exn

section \<open>The environment: libraries and per-request inputs\<close>

text \<open>
  The libraries the code calls are parameters: \<open>jwt.verify\<close> and \<open>jwt.sign\<close> with the
  process-wide secret, \<open>bcrypt\<close> on strings (salt generation and hashing as one step),
  \<open>path.extname\<close>, and the two values the upload file name is built from, \<open>Date.now()\<close>
  and \<open>Math.round(Math.random() * 1E9)\<close>. Two parameters stand for what the database
  engine does with values that the model does not compute itself: \<open>numeric_text\<close> is what
  a column of INTEGER affinity holds for a text that is not a plain decimal integer of 64
  bits (the text itself, unless the engine reads it as a number), and \<open>param_text\<close> is the
  text a bound number or boolean is compared as against a TEXT column.
\<close>

record env =
  jwt_verify :: "string \<Rightarrow> exn + claims"
  jwt_sign :: "token_payload \<Rightarrow> exn + string"
  bcrypt_hash :: "string \<Rightarrow> exn + string"
  bcrypt_compare :: "string \<Rightarrow> string \<Rightarrow> exn + bool"
  path_extname :: "string \<Rightarrow> string"
  date_now :: nat
  math_random :: nat
  numeric_text :: "string \<Rightarrow> sqlval"
  param_text :: "jsval \<Rightarrow> string"

section \<open>Values on their way into and out of the store\<close>

text \<open>
  An INTEGER read from a row becomes a JavaScript number, the nearest double (ties to
  the even mantissa): an integer of more than 53 significant bits is rounded.
\<close>

fun bit_length :: "nat \<Rightarrow> nat" where
  "bit_length n = (if n = 0 then 0 else Suc (bit_length (n div 2)))"

declare bit_length.simps [simp del]

definition round_nat :: "nat \<Rightarrow> nat" where
  "round_nat m =
     (if bit_length m \<le> 53 then m
      else (let s = bit_length m - 53; q = m div 2 ^ s; r = m mod 2 ^ s; half = 2 ^ (s - 1)
            in if half < r \<or> (r = half \<and> odd q) then (q + 1) * 2 ^ s else q * 2 ^ s))"

definition to_double :: "int \<Rightarrow> int" where
  "to_double n = (if n < 0 then - int (round_nat (nat (- n))) else int (round_nat (nat n)))"

text \<open>What \<open>db.get\<close> returns for a column value.\<close>

fun js_of_sql :: "sqlval \<Rightarrow> jsval" where
  "js_of_sql SqlNull = JNull"
| "js_of_sql (SqlInteger n) = JNum (to_double n)"
| "js_of_sql (SqlReal n) = JNum n"
| "js_of_sql (SqlText s) = JStr s"

text \<open>
  A number bound to a column of INTEGER affinity is stored as an INTEGER when it lies
  strictly between \<open>- 2 ^ 63\<close> and \<open>2 ^ 63\<close>, and stays REAL otherwise.
\<close>

definition sql_of_number :: "int \<Rightarrow> sqlval" where
  "sql_of_number n =
     (if - (2 ^ 63) < n \<and> n < 2 ^ 63 then SqlInteger n else SqlReal n)"

text \<open>A plain decimal integer: an optional minus sign and one or more digits.\<close>

definition digit_value :: "char \<Rightarrow> nat option" where
  "digit_value = map_of
     [(CHR ''0'', 0), (CHR ''1'', 1), (CHR ''2'', 2), (CHR ''3'', 3), (CHR ''4'', 4),
      (CHR ''5'', 5), (CHR ''6'', 6), (CHR ''7'', 7), (CHR ''8'', 8), (CHR ''9'', 9)]"

fun digits_value :: "nat \<Rightarrow> string \<Rightarrow> nat option" where
  "digits_value acc [] = Some acc"
| "digits_value acc (c # cs) =
     (case digit_value c of
        None \<Rightarrow> None
      | Some d \<Rightarrow> digits_value (10 * acc + d) cs)"

definition int_literal :: "string \<Rightarrow> int option" where
  "int_literal s =
     (case s of
        [] \<Rightarrow> None
      | c # cs \<Rightarrow>
          if c = CHR ''-''
          then (if cs = [] then None else map_option (\<lambda>n. - int n) (digits_value 0 cs))
          else map_option int (digits_value 0 s))"

text \<open>
  Text bound to a column of INTEGER affinity: a plain decimal integer of 64 bits is stored
  as that INTEGER; what the engine does with any other text is the parameter.
\<close>

definition integer_affinity_text :: "env \<Rightarrow> string \<Rightarrow> sqlval" where
  "integer_affinity_text e s =
     (case int_literal s of
        None \<Rightarrow> numeric_text e s
      | Some n \<Rightarrow>
          if - (2 ^ 63) \<le> n \<and> n < 2 ^ 63 then SqlInteger n else numeric_text e s)"

text \<open>
  What the column \<open>item_count INTEGER\<close> holds for a bound value. An \<open>undefined\<close> parameter
  is left unbound, which is NULL; a boolean is bound as 1 or 0.
\<close>

fun integer_column :: "env \<Rightarrow> jsval \<Rightarrow> sqlval" where
  "integer_column e JUndefined = SqlNull"
| "integer_column e JNull = SqlNull"
| "integer_column e (JBool b) = SqlInteger (if b then 1 else 0)"
| "integer_column e (JNum n) = sql_of_number n"
| "integer_column e (JStr s) = integer_affinity_text e s"

text \<open>
  A value bound to \<open>WHERE email = ?\<close>, as it is compared against the TEXT column: a string
  as it is, any other value as the text the engine makes of it.
\<close>

definition text_param :: "env \<Rightarrow> jsval \<Rightarrow> string" where
  "text_param e v = (case v of JStr s \<Rightarrow> s | _ \<Rightarrow> param_text e v)"

section \<open>The Auth Guard (middleware/auth.js)\<close>

text \<open>\<open>s.split(' ')\<close>: the pieces between single spaces; never the empty array.\<close>

fun split_space :: "string \<Rightarrow> string list" where
  "split_space [] = [[]]"
| "split_space (c # cs) =
     (if c = CHR '' '' then [] # split_space cs
      else (case split_space cs of
              [] \<Rightarrow> [[c]]
            | x # xs \<Rightarrow> (c # x) # xs))"

text \<open>\<open>a[i]\<close> on an array: \<open>undefined\<close> (here \<open>None\<close>) out of range.\<close>

fun js_index :: "'a list \<Rightarrow> nat \<Rightarrow> 'a option" where
  "js_index [] i = None"
| "js_index (x # xs) 0 = Some x"
| "js_index (x # xs) (Suc i) = js_index xs i"

text \<open>
  The body of the \<open>try\<close> block. \<open>req.headers.authorization\<close> is a string or \<open>undefined\<close>;
  calling \<open>split\<close> on \<open>undefined\<close> throws a TypeError. A token that is \<open>undefined\<close> or
  empty is falsy.
\<close>

definition auth_try :: "env \<Rightarrow> string option \<Rightarrow> exn + claims middleware_result" where
  "auth_try e authorization =
     (case authorization of
        None \<Rightarrow> Inl (TypeError ''Cannot read properties of undefined (reading split)'')
      | Some h \<Rightarrow>
          (case js_index (split_space h) 1 of
             None \<Rightarrow> Inr (Respond \<lparr>status = 401,
                 body = Message ''No authentication token, authorization denied''\<rparr>)
           | Some token \<Rightarrow>
               if token = [] then Inr (Respond \<lparr>status = 401,
                 body = Message ''No authentication token, authorization denied''\<rparr>)
               else (case jwt_verify e token of
                       Inl err \<Rightarrow> Inl err
                     | Inr decoded \<Rightarrow> Inr (Next decoded))))"

text \<open>The \<open>catch\<close> block answers 401 for whatever was thrown.\<close>

definition auth :: "env \<Rightarrow> string option \<Rightarrow> claims middleware_result" where
  "auth e authorization =
     (case auth_try e authorization of
        Inl err \<Rightarrow> Respond \<lparr>status = 401, body = Message ''Token is not valid''\<rparr>
      | Inr r \<Rightarrow> r)"

section \<open>The store, the upload directory and failing I/O\<close>

record user_row =
  user_id :: nat
  username :: string
  email :: string
  password :: string
  user_created_at :: nat

record category_row =
  cat_id :: nat
  cat_name :: string
  item_count :: sqlval
  cat_image :: "string option"
  created_at :: nat
  updated_at :: nat

text \<open>
  The world the handlers act on: the two tables of database/init.js with their
  AUTOINCREMENT counters, the names of the files in the uploads directory, the store's
  CURRENT_TIMESTAMP, and a schedule of I/O faults. Every call that can throw (opening the
  database, a query, \<open>fs.unlinkSync\<close>) takes the next entry of the schedule; \<open>True\<close> makes
  the call throw, and an exhausted schedule means no further fault.
\<close>

record world =
  users :: "user_row list"
  categories :: "category_row list"
  next_user_id :: nat
  next_category_id :: nat
  files :: "string set"
  now :: nat
  faults :: "bool list"

type_synonym 'a io = "world \<Rightarrow> (exn + 'a) \<times> world"

definition next_fault :: "world \<Rightarrow> bool \<times> world" where
  "next_fault w =
     (case faults w of
        [] \<Rightarrow> (False, w)
      | b # bs \<Rightarrow> (b, w\<lparr>faults := bs\<rparr>))"

definition fallible :: "exn \<Rightarrow> (world \<Rightarrow> (exn + 'a) \<times> world) \<Rightarrow> 'a io" where
  "fallible err act w =
     (case next_fault w of
        (True, w') \<Rightarrow> (Inl err, w')
      | (False, w') \<Rightarrow> act w')"

definition io_return :: "'a \<Rightarrow> 'a io" where
  "io_return x w = (Inr x, w)"

definition io_throw :: "exn \<Rightarrow> 'a io" where
  "io_throw err w = (Inl err, w)"

text \<open>Sequencing of awaited steps: an exception skips what follows.\<close>

definition io_bind :: "'a io \<Rightarrow> ('a \<Rightarrow> 'b io) \<Rightarrow> 'b io" where
  "io_bind m f w =
     (case m w of
        (Inl err, w') \<Rightarrow> (Inl err, w')
      | (Inr x, w') \<Rightarrow> f x w')"

text \<open>
  The handlers' \<open>try { ... } catch (err) { res.status(500).json({ message: 'Server error' }) }\<close>.
\<close>

definition catch_500 :: "response io \<Rightarrow> world \<Rightarrow> response \<times> world" where
  "catch_500 m w =
     (case m w of
        (Inl err, w') \<Rightarrow> (\<lparr>status = 500, body = Message ''Server error''\<rparr>, w')
      | (Inr r, w') \<Rightarrow> (r, w'))"

definition getDb :: "unit io" where
  "getDb = fallible (SqliteError ''SQLITE_CANTOPEN'') (io_return ())"

subsection \<open>Queries on users\<close>

text \<open>\<open>SELECT * FROM users WHERE email = ?\<close> through \<open>db.get\<close>: the first row or \<open>undefined\<close>.\<close>

definition db_get_user_by_email :: "string \<Rightarrow> user_row option io" where
  "db_get_user_by_email em =
     fallible (SqliteError ''SQLITE_ERROR'')
       (\<lambda>w. (Inr (find (\<lambda>u. email u = em) (users w)), w))"

definition db_get_user_by_username :: "string \<Rightarrow> user_row option io" where
  "db_get_user_by_username un =
     fallible (SqliteError ''SQLITE_ERROR'')
       (\<lambda>w. (Inr (find (\<lambda>u. username u = un) (users w)), w))"

text \<open>
  \<open>INSERT INTO users (username, email, password)\<close>. The table declares username and email
  UNIQUE, so the insert throws on a duplicate of either. The result is \<open>lastID\<close>.
\<close>

definition db_insert_user :: "string \<Rightarrow> string \<Rightarrow> string \<Rightarrow> nat io" where
  "db_insert_user un em pw =
     fallible (SqliteError ''SQLITE_ERROR'')
       (\<lambda>w. if find (\<lambda>u. username u = un \<or> email u = em) (users w) \<noteq> None
             then (Inl (SqliteError ''SQLITE_CONSTRAINT''), w)
             else (Inr (next_user_id w),
                   w\<lparr>users := users w @
                        [\<lparr>user_id = next_user_id w, username = un, email = em,
                          password = pw, user_created_at = now w\<rparr>],
                      next_user_id := Suc (next_user_id w)\<rparr>))"

subsection \<open>Queries on categories\<close>

definition db_get_category_by_name :: "string \<Rightarrow> category_row option io" where
  "db_get_category_by_name nm =
     fallible (SqliteError ''SQLITE_ERROR'')
       (\<lambda>w. (Inr (find (\<lambda>c. cat_name c = nm) (categories w)), w))"

text \<open>
  \<open>SELECT * FROM categories WHERE id = ?\<close>. The id is a number: the path parameter of a
  request is taken as the number it denotes.
\<close>

definition db_get_category_by_id :: "nat \<Rightarrow> category_row option io" where
  "db_get_category_by_id i =
     fallible (SqliteError ''SQLITE_ERROR'')
       (\<lambda>w. (Inr (find (\<lambda>c. cat_id c = i) (categories w)), w))"

text \<open>
  \<open>INSERT INTO categories (name, item_count, image)\<close>. The categories table declares no
  constraint on name beyond NOT NULL, so the insert looks at no other row. The column
  \<open>item_count INTEGER\<close> holds what its affinity makes of the bound value.
\<close>

definition db_insert_category :: "env \<Rightarrow> string \<Rightarrow> jsval \<Rightarrow> string option \<Rightarrow> nat io" where
  "db_insert_category e nm cnt img =
     fallible (SqliteError ''SQLITE_ERROR'')
       (\<lambda>w. (Inr (next_category_id w),
              w\<lparr>categories := categories w @
                   [\<lparr>cat_id = next_category_id w, cat_name = nm,
                     item_count = integer_column e cnt,
                     cat_image = img, created_at = now w, updated_at = now w\<rparr>],
                 next_category_id := Suc (next_category_id w)\<rparr>))"

text \<open>
  \<open>UPDATE categories SET name = ?, item_count = ?, image = ?, updated_at = CURRENT_TIMESTAMP
  WHERE id = ?\<close>.
\<close>

definition db_update_category :: "env \<Rightarrow> string \<Rightarrow> jsval \<Rightarrow> string option \<Rightarrow> nat \<Rightarrow>
    unit io" where
  "db_update_category e nm cnt img i =
     fallible (SqliteError ''SQLITE_ERROR'')
       (\<lambda>w. (Inr (),
              w\<lparr>categories :=
                   map (\<lambda>c. if cat_id c = i
                             then c\<lparr>cat_name := nm, item_count := integer_column e cnt,
                                    cat_image := img, updated_at := now w\<rparr>
                             else c)
                       (categories w)\<rparr>))"

text \<open>\<open>DELETE FROM categories WHERE id = ?\<close>.\<close>

definition db_delete_category :: "nat \<Rightarrow> unit io" where
  "db_delete_category i =
     fallible (SqliteError ''SQLITE_ERROR'')
       (\<lambda>w. (Inr (), w\<lparr>categories := filter (\<lambda>c. cat_id c \<noteq> i) (categories w)\<rparr>))"

subsection \<open>The uploads directory\<close>

text \<open>
  A stored image is addressed by its file name below the uploads directory.
  \<open>fs.existsSync\<close> does not throw; \<open>fs.unlinkSync\<close> throws when the file is not there.
\<close>

definition fs_existsSync :: "string \<Rightarrow> world \<Rightarrow> bool" where
  "fs_existsSync f w = (f \<in> files w)"

definition fs_unlinkSync :: "string \<Rightarrow> unit io" where
  "fs_unlinkSync f =
     fallible (FsError ''EPERM'')
       (\<lambda>w. if f \<in> files w then (Inr (), w\<lparr>files := files w - {f}\<rparr>)
             else (Inl (FsError ''ENOENT''), w))"

section \<open>Auth Flow (routes/auth.js)\<close>

text \<open>
  The body fields username, email and password are strings or absent; \<open>!x\<close> holds of an
  absent and of an empty one.
\<close>

definition register :: "env \<Rightarrow> string option \<Rightarrow> string option \<Rightarrow> string option \<Rightarrow>
    world \<Rightarrow> response \<times> world" where
  "register e un_field em_field pw_field =
     (case (un_field, em_field, pw_field) of
        (Some un, Some em, Some pw) \<Rightarrow>
          if un = [] \<or> em = [] \<or> pw = []
          then Pair \<lparr>status = 400, body = Message ''Please enter all fields''\<rparr>
          else catch_500
            (io_bind getDb (\<lambda>db.
             io_bind (db_get_user_by_email em) (\<lambda>existingUserByEmail.
               if existingUserByEmail \<noteq> None
               then io_return \<lparr>status = 400, body = Message ''Email already in use''\<rparr>
               else
             io_bind (db_get_user_by_username un) (\<lambda>existingUserByUsername.
               if existingUserByUsername \<noteq> None
               then io_return \<lparr>status = 400, body = Message ''Username already taken''\<rparr>
               else
             (case bcrypt_hash e pw of
                Inl err \<Rightarrow> io_throw err
              | Inr hash \<Rightarrow>
             io_bind (db_insert_user un em hash) (\<lambda>result.
               io_return \<lparr>status = 201,
                 body = Success ''Registration successful! Please log in.''\<rparr>))))))
      | _ \<Rightarrow> Pair \<lparr>status = 400, body = Message ''Please enter all fields''\<rparr>)"

text \<open>
  \<open>bcrypt.compare\<close> checks its arguments first: anything but a string as the password is
  refused with an error. The stored hash is a string.
\<close>

definition compare :: "env \<Rightarrow> jsval \<Rightarrow> string \<Rightarrow> exn + bool" where
  "compare e s hash =
     (case s of
        JStr p \<Rightarrow> bcrypt_compare e p hash
      | _ \<Rightarrow> Inl (Error ''Illegal arguments''))"

text \<open>
  POST /login. The handler tests the two fields for truthiness only, so email and
  password are any body values.
\<close>

definition login :: "env \<Rightarrow> jsval \<Rightarrow> jsval \<Rightarrow> world \<Rightarrow> response \<times> world" where
  "login e email_field password_field =
     (if \<not> truthy email_field \<or> \<not> truthy password_field
      then Pair \<lparr>status = 400, body = Message ''Please enter all fields''\<rparr>
      else catch_500
        (io_bind getDb (\<lambda>db.
         io_bind (db_get_user_by_email (text_param e email_field)) (\<lambda>user.
           case user of
             None \<Rightarrow> io_return \<lparr>status = 400, body = Message ''Invalid credentials''\<rparr>
           | Some u \<Rightarrow>
               (case compare e password_field (password u) of
                  Inl err \<Rightarrow> io_throw err
                | Inr isMatch \<Rightarrow>
                    if \<not> isMatch
                    then io_return \<lparr>status = 400, body = Message ''Invalid credentials''\<rparr>
                    else
                      (case jwt_sign e \<lparr>payload_id = user_id u,
                              payload_username = username u,
                              payload_email = email_field\<rparr> of
                         Inl err \<Rightarrow> io_throw err
                       | Inr token \<Rightarrow>
                           io_return \<lparr>status = 200,
                             body = TokenUser token
                               \<lparr>claim_id = user_id u, claim_username = username u,
                                claim_email = email u\<rparr>\<rparr>))))))"

section \<open>Category Manager (routes/categories.js)\<close>

subsection \<open>The upload middleware\<close>

text \<open>
  The file part of a multipart body in the field \<open>image\<close>, as multer describes it to the
  callbacks of the configuration.
\<close>

record upload_file =
  originalname :: string
  mimetype :: string
  size_bytes :: nat

text \<open>Decimal digits of a number, as string concatenation with a number produces them.\<close>

definition digit :: "nat \<Rightarrow> char" where
  "digit d = ''0123456789'' ! d"

fun string_of_nat :: "nat \<Rightarrow> string" where
  "string_of_nat n =
     (if 10 \<le> n then string_of_nat (n div 10) @ [digit (n mod 10)] else [digit n])"

declare string_of_nat.simps [simp del]

text \<open>The \<open>filename\<close> callback of the disk storage; the field name is \<open>image\<close>.\<close>

definition filename :: "env \<Rightarrow> upload_file \<Rightarrow> string" where
  "filename e file =
     (let uniqueSuffix = string_of_nat (date_now e) @ ''-'' @ string_of_nat (math_random e);
          ext = path_extname e (originalname file)
      in ''image'' @ ''-'' @ uniqueSuffix @ ext)"

text \<open>\<open>fileFilter\<close>: \<open>True\<close> accepts the file, \<open>False\<close> is the callback with the error.\<close>

definition fileFilter :: "upload_file \<Rightarrow> bool" where
  "fileFilter file = prefix ''image/'' (mimetype file)"

definition fileSize_limit :: nat where
  "fileSize_limit = 5 * 1024 * 1024"

text \<open>
  \<open>upload.single('image')\<close>. Without a file part it calls \<open>next()\<close> and \<open>req.file\<close> stays
  undefined. A file the filter refuses is not written, and the filter's error goes to
  \<open>next(err)\<close>. An accepted file is written under the generated name; the library raises
  its LIMIT_FILE_SIZE error as soon as the bytes read reach the limit, so a file of
  exactly the limit is refused like a larger one: the library removes what it wrote and
  calls \<open>next(err)\<close>. Otherwise \<open>req.file.filename\<close> is the generated name.
\<close>

definition upload_single :: "env \<Rightarrow> upload_file option \<Rightarrow> world \<Rightarrow>
    string option middleware_result \<times> world" where
  "upload_single e part w =
     (case part of
        None \<Rightarrow> (Next None, w)
      | Some file \<Rightarrow>
          if \<not> fileFilter file
          then (NextErr (Error ''Not an image! Please upload only images.''), w)
          else if size_bytes file \<ge> fileSize_limit
          then (NextErr (MulterError ''LIMIT_FILE_SIZE''),
                w\<lparr>files := files w - {filename e file}\<rparr>)
          else (Next (Some (filename e file)),
                w\<lparr>files := insert (filename e file) (files w)\<rparr>))"

subsection \<open>The handlers\<close>

definition uploads_path :: "string option \<Rightarrow> string option" where
  "uploads_path img =
     (case img of
        None \<Rightarrow> None
      | Some f \<Rightarrow> if f = [] then None else Some (''/uploads/'' @ f))"

text \<open>
  POST /: \<open>name\<close> is a string or absent, \<open>itemCount\<close> any body value, \<open>file\<close> is
  \<open>req.file.filename\<close> when the upload middleware stored a file. The answer shows the
  item count as \<open>db.get\<close> returns it.
\<close>

definition categories_post :: "env \<Rightarrow> string option \<Rightarrow> jsval \<Rightarrow> string option \<Rightarrow>
    world \<Rightarrow> response \<times> world" where
  "categories_post e name_field itemCount file =
     catch_500
       (case name_field of
          None \<Rightarrow> io_return \<lparr>status = 400, body = Message ''Category name is required''\<rparr>
        | Some nm \<Rightarrow>
            if nm = []
            then io_return \<lparr>status = 400, body = Message ''Category name is required''\<rparr>
            else
          io_bind getDb (\<lambda>db.
          io_bind (db_get_category_by_name nm) (\<lambda>existingCategory.
            if existingCategory \<noteq> None
            then io_return \<lparr>status = 400, body = Message ''Category already exists''\<rparr>
            else
          io_bind (db_insert_category e nm (if truthy itemCount then itemCount else JNum 0)
                     file) (\<lambda>lastID.
          io_bind (db_get_category_by_id lastID) (\<lambda>newCategory.
            case newCategory of
              None \<Rightarrow> io_throw (TypeError ''Cannot read properties of undefined (reading id)'')
            | Some c \<Rightarrow>
                io_return \<lparr>status = 201,
                  body = CategoryJson
                    \<lparr>json_id = cat_id c, json_name = cat_name c,
                     json_itemCount = js_of_sql (item_count c),
                     json_image = uploads_path file,
                     json_createdAt = created_at c, json_updatedAt = updated_at c\<rparr>\<rparr>)))))"

text \<open>
  PUT /:id. An item count the request does not send is replaced by the one read from the
  row, a JavaScript value, which the UPDATE binds again.
\<close>

definition categories_put :: "env \<Rightarrow> nat \<Rightarrow> string option \<Rightarrow> jsval \<Rightarrow> string option \<Rightarrow>
    world \<Rightarrow> response \<times> world" where
  "categories_put e i name_field itemCount file =
     catch_500
       (io_bind getDb (\<lambda>db.
        io_bind (db_get_category_by_id i) (\<lambda>found.
          case found of
            None \<Rightarrow> io_return \<lparr>status = 404, body = Message ''Category not found''\<rparr>
          | Some category \<Rightarrow>
        (let imageFilename = (case file of Some f \<Rightarrow> Some f | None \<Rightarrow> cat_image category)
         in
        io_bind (db_update_category e
                   (case name_field of
                      None \<Rightarrow> cat_name category
                    | Some nm \<Rightarrow> if nm = [] then cat_name category else nm)
                   (if itemCount \<noteq> JUndefined then itemCount
                    else js_of_sql (item_count category))
                   imageFilename i) (\<lambda>_.
        io_bind (db_get_category_by_id i) (\<lambda>updated.
          case updated of
            None \<Rightarrow> io_throw (TypeError ''Cannot read properties of undefined (reading id)'')
          | Some c \<Rightarrow>
              io_return \<lparr>status = 200,
                body = CategoryJson
                  \<lparr>json_id = cat_id c, json_name = cat_name c,
                   json_itemCount = js_of_sql (item_count c),
                   json_image = uploads_path (cat_image c),
                   json_createdAt = created_at c, json_updatedAt = updated_at c\<rparr>\<rparr>))))))"

text \<open>DELETE /:id. An image reference that is null or empty is falsy.\<close>

definition remove_image :: "string option \<Rightarrow> unit io" where
  "remove_image img =
     (case img of
        None \<Rightarrow> io_return ()
      | Some f \<Rightarrow>
          if f = [] then io_return ()
          else (\<lambda>w. if fs_existsSync f w then fs_unlinkSync f w else io_return () w))"

definition categories_delete :: "nat \<Rightarrow> world \<Rightarrow> response \<times> world" where
  "categories_delete i =
     catch_500
       (io_bind getDb (\<lambda>db.
        io_bind (db_get_category_by_id i) (\<lambda>found.
          case found of
            None \<Rightarrow> io_return \<lparr>status = 404, body = Message ''Category not found''\<rparr>
          | Some category \<Rightarrow>
        io_bind (remove_image (cat_image category)) (\<lambda>_.
        io_bind (db_delete_category i) (\<lambda>_.
          io_return \<lparr>status = 200, body = Message ''Category deleted successfully''\<rparr>)))))"

subsection \<open>The routes: guard, upload, handler\<close>

text \<open>
  server.js registers no error-handling middleware, so an error given to \<open>next\<close> reaches
  the framework's final handler, which answers 500 for an error that carries no status.
\<close>

definition final_handler :: "exn \<Rightarrow> response" where
  "final_handler err = \<lparr>status = 500, body = ErrorPage err\<rparr>"

record category_request =
  authorization :: "string option"
  body_name :: "string option"
  body_itemCount :: jsval
  image_part :: "upload_file option"

definition with_upload :: "env \<Rightarrow> category_request \<Rightarrow>
    (string option \<Rightarrow> world \<Rightarrow> response \<times> world) \<Rightarrow> world \<Rightarrow> response \<times> world" where
  "with_upload e req handler w =
     (case auth e (authorization req) of
        Respond r \<Rightarrow> (r, w)
      | NextErr err \<Rightarrow> (final_handler err, w)
      | Next decoded \<Rightarrow>
          (case upload_single e (image_part req) w of
             (Respond r, w') \<Rightarrow> (r, w')
           | (NextErr err, w') \<Rightarrow> (final_handler err, w')
           | (Next file, w') \<Rightarrow> handler file w'))"

definition route_post :: "env \<Rightarrow> category_request \<Rightarrow> world \<Rightarrow> response \<times> world" where
  "route_post e req =
     with_upload e req (categories_post e (body_name req) (body_itemCount req))"

definition route_put :: "env \<Rightarrow> nat \<Rightarrow> category_request \<Rightarrow> world \<Rightarrow> response \<times> world" where
  "route_put e i req =
     with_upload e req (categories_put e i (body_name req) (body_itemCount req))"

definition route_delete :: "env \<Rightarrow> nat \<Rightarrow> string option \<Rightarrow> world \<Rightarrow> response \<times> world" where
  "route_delete e i authorization_header w =
     (case auth e authorization_header of
        Respond r \<Rightarrow> (r, w)
      | NextErr err \<Rightarrow> (final_handler err, w)
      | Next decoded \<Rightarrow> categories_delete i w)"

section \<open>Sample data\<close>

text \<open>
  A store as database/init.js seeds it (one user, categories that name image files), with
  one of the two named files present in the uploads directory, and no I/O fault scheduled.
\<close>

definition sample_claims :: claims where
  "sample_claims =
     \<lparr>claim_id = 1, claim_username = ''admin'', claim_email = ''admin@example.com''\<rparr>"

definition sample_env :: env where
  "sample_env =
     \<lparr>jwt_verify = (\<lambda>t. if t = ''good'' then Inr sample_claims
                          else Inl (JsonWebTokenError ''invalid signature'')),
      jwt_sign = (\<lambda>p. Inr ''good''),
      bcrypt_hash = (\<lambda>p. Inr (''$2a$10$'' @ p)),
      bcrypt_compare = (\<lambda>p h. Inr (h = ''$2a$10$'' @ p)),
      path_extname = (\<lambda>n. if n = ''shoes.png'' then ''.png'' else []),
      date_now = 1700000000000,
      math_random = 42,
      numeric_text = SqlText,
      param_text = (\<lambda>v. [])\<rparr>"

definition sample_admin :: user_row where
  "sample_admin =
     \<lparr>user_id = 1, username = ''admin'', email = ''admin@example.com'',
      password = ''$2a$10$password123'', user_created_at = 100\<rparr>"

definition sample_summer :: category_row where
  "sample_summer =
     \<lparr>cat_id = 1, cat_name = ''Summer Clothes'', item_count = SqlInteger 26,
      cat_image = Some ''summer.jpg'', created_at = 100, updated_at = 100\<rparr>"

definition sample_winter :: category_row where
  "sample_winter =
     \<lparr>cat_id = 2, cat_name = ''Winter Collection'', item_count = SqlInteger 32,
      cat_image = Some ''winter.jpg'', created_at = 100, updated_at = 100\<rparr>"

definition sample_world :: world where
  "sample_world =
     \<lparr>users = [sample_admin], categories = [sample_summer, sample_winter],
      next_user_id = 2, next_category_id = 3, files = {''summer.jpg''},
      now = 200, faults = []\<rparr>"

definition sample_png :: upload_file where
  "sample_png = \<lparr>originalname = ''shoes.png'', mimetype = ''image/png'', size_bytes = 2048\<rparr>"

definition sample_pdf :: upload_file where
  "sample_pdf =
     \<lparr>originalname = ''prices.pdf'', mimetype = ''application/pdf'', size_bytes = 2048\<rparr>"

definition sample_request :: "upload_file option \<Rightarrow> category_request" where
  "sample_request part =
     \<lparr>authorization = Some ''Bearer good'', body_name = Some ''Shoes'',
      body_itemCount = JStr ''3'', image_part = part\<rparr>"


section \<open>Auxiliary facts\<close>

lemmas io_defs =
  io_bind_def io_return_def io_throw_def catch_500_def fallible_def next_fault_def getDb_def

lemmas sample_defs =
  sample_claims_def sample_env_def sample_admin_def sample_summer_def sample_winter_def
  sample_world_def sample_png_def sample_pdf_def sample_request_def

subsection \<open>Lookups after an update, a delete and an insert\<close>

lemma find_cat_id_map:
  assumes "find (\<lambda>c. cat_id c = i) cs = Some c" and "\<And>x. cat_id (g x) = cat_id x"
  shows "find (\<lambda>c. cat_id c = i) (map (\<lambda>x. if cat_id x = i then g x else x) cs) = Some (g c)"
  using assms by (induction cs) (auto split: if_splits)

lemma find_cat_id_filter:
  "find (\<lambda>c. cat_id c = i) (filter (\<lambda>c. cat_id c \<noteq> i) cs) = None"
  by (induction cs) auto


lemma find_cat_name_member:
  assumes "c \<in> set cs" and "cat_name c = nm"
  shows "find (\<lambda>c. cat_name c = nm) cs \<noteq> None"
  using assms by (auto simp add: find_None_iff)

subsection \<open>Numbers that survive the way through a JavaScript number\<close>








subsection \<open>The guard\<close>

lemma auth_no_token:
  assumes "js_index (split_space h) 1 = None \<or> js_index (split_space h) 1 = Some []"
  shows "auth e (Some h) =
           Respond \<lparr>status = 401,
             body = Message ''No authentication token, authorization denied''\<rparr>"
  using assms by (auto simp add: auth_def auth_try_def)

lemma auth_verify_failure:
  assumes "js_index (split_space h) 1 = Some token" and "token \<noteq> []"
    and "jwt_verify e token = Inl err"
  shows "auth e (Some h) = Respond \<lparr>status = 401, body = Message ''Token is not valid''\<rparr>"
  using assms by (simp add: auth_def auth_try_def)

lemma auth_verified:
  assumes "js_index (split_space h) 1 = Some token" and "token \<noteq> []"
    and "jwt_verify e token = Inr decoded"
  shows "auth e (Some h) = Next decoded"
  using assms by (simp add: auth_def auth_try_def)

lemma guard_stops_request:
  assumes "auth e (authorization req) = Respond r"
  shows "with_upload e req handler w = (r, w)"
  using assms by (simp add: with_upload_def)

subsection \<open>The handlers of categories when no I/O fault occurs\<close>


lemma categories_put_updated:
  assumes "faults w = []" and "find (\<lambda>c. cat_id c = i) (categories w) = Some c"
  shows "status (fst (categories_put e i name_field itemCount file w)) = 200 \<and>
     find (\<lambda>c. cat_id c = i)
       (categories (snd (categories_put e i name_field itemCount file w))) =
       Some (c\<lparr>cat_name := (case name_field of
                               None \<Rightarrow> cat_name c
                             | Some nm \<Rightarrow> if nm = [] then cat_name c else nm),
               item_count := integer_column e
                 (if itemCount \<noteq> JUndefined then itemCount else js_of_sql (item_count c)),
               cat_image := (case file of Some f \<Rightarrow> Some f | None \<Rightarrow> cat_image c),
               updated_at := now w\<rparr>)"
proof -
  let ?g = "\<lambda>x. x\<lparr>cat_name := (case name_field of
                               None \<Rightarrow> cat_name c
                             | Some nm \<Rightarrow> if nm = [] then cat_name c else nm),
               item_count := integer_column e
                 (if itemCount \<noteq> JUndefined then itemCount else js_of_sql (item_count c)),
               cat_image := (case file of Some f \<Rightarrow> Some f | None \<Rightarrow> cat_image c),
               updated_at := now w\<rparr>"
  have "find (\<lambda>c. cat_id c = i)
          (map (\<lambda>x. if cat_id x = i then ?g x else x) (categories w)) = Some (?g c)"
    by (rule find_cat_id_map [OF assms(2)]) simp
  with assms show ?thesis
    by (simp add: categories_put_def io_defs db_get_category_by_id_def
          db_update_category_def Let_def)
qed

lemma categories_put_missing:
  assumes "faults w = []" and "find (\<lambda>c. cat_id c = i) (categories w) = None"
  shows "categories_put e i name_field itemCount file w =
           (\<lparr>status = 404, body = Message ''Category not found''\<rparr>, w)"
  using assms by (simp add: categories_put_def io_defs db_get_category_by_id_def)

lemma categories_delete_done:
  assumes "faults w = []" and "find (\<lambda>c. cat_id c = i) (categories w) = Some c"
  shows "categories_delete i w =
           (\<lparr>status = 200, body = Message ''Category deleted successfully''\<rparr>,
            w\<lparr>files := (case cat_image c of
                           None \<Rightarrow> files w
                         | Some f \<Rightarrow> if f = [] then files w else files w - {f}),
              categories := filter (\<lambda>c. cat_id c \<noteq> i) (categories w)\<rparr>)"
  using assms
  by (auto simp add: categories_delete_def io_defs db_get_category_by_id_def
        db_delete_category_def remove_image_def fs_existsSync_def fs_unlinkSync_def
        split: option.splits)

lemma categories_delete_missing:
  assumes "faults w = []" and "find (\<lambda>c. cat_id c = i) (categories w) = None"
  shows "categories_delete i w =
           (\<lparr>status = 404, body = Message ''Category not found''\<rparr>, w)"
  using assms by (simp add: categories_delete_def io_defs db_get_category_by_id_def)

subsection \<open>Steps that leave the uploads directory alone\<close>

lemma keeps_files_bind:
  assumes "\<And>w. files (snd (m w)) = files w" and "\<And>x w. files (snd (f x w)) = files w"
  shows "files (snd (io_bind m f w)) = files w"
proof (cases "m w")
  case (Pair r w')
  with assms(1) [of w] have "files w' = files w" by simp
  with Pair assms(2) show ?thesis by (cases r) (simp_all add: io_bind_def)
qed

lemma keeps_files_catch:
  assumes "\<And>w. files (snd (m w)) = files w"
  shows "files (snd (catch_500 m w)) = files w"
proof (cases "m w")
  case (Pair r w')
  with assms [of w] show ?thesis by (cases r) (simp_all add: catch_500_def)
qed

lemma keeps_files_fallible:
  assumes "\<And>w. files (snd (act w)) = files w"
  shows "files (snd (fallible err act w)) = files w"
  using assms
  by (cases "faults w"; cases "hd (faults w)") (simp_all add: fallible_def next_fault_def)

lemma keeps_files_return: "files (snd (io_return x w)) = files w"
  by (simp add: io_return_def)

lemma keeps_files_throw: "files (snd (io_throw err w)) = files w"
  by (simp add: io_throw_def)

lemma keeps_files_db:
  "files (snd (getDb w)) = files w"
  "files (snd (db_get_category_by_id i w)) = files w"
  "files (snd (db_get_category_by_name nm w)) = files w"
  "files (snd (db_insert_category e nm cnt img w)) = files w"
  "files (snd (db_update_category e nm cnt img i w)) = files w"
  by (simp_all add: getDb_def db_get_category_by_id_def db_get_category_by_name_def
        db_insert_category_def db_update_category_def keeps_files_fallible keeps_files_return)

lemma categories_put_files:
  "files (snd (categories_put e i name_field itemCount file w)) = files w"
  unfolding categories_put_def Let_def
  by (intro keeps_files_catch keeps_files_bind keeps_files_db)
     (simp_all add: keeps_files_return keeps_files_throw keeps_files_bind keeps_files_db
        split: option.splits)

lemma categories_post_files:
  "files (snd (categories_post e name_field itemCount file w)) = files w"
  unfolding categories_post_def
  by (intro keeps_files_catch)
     (auto simp add: keeps_files_return keeps_files_throw keeps_files_bind keeps_files_db
        split: option.splits)

subsection \<open>Login with a password that is a string\<close>

lemma login_failures_same_for_strings:
  assumes "faults w = []" and "em1 \<noteq> []" and "pw1 \<noteq> []" and "em2 \<noteq> []" and "pw2 \<noteq> []"
    and "find (\<lambda>u. email u = em1) (users w) = None"
    and "find (\<lambda>u. email u = em2) (users w) = Some u"
    and "bcrypt_compare e pw2 (password u) = Inr False"
  shows "login e (JStr em1) (JStr pw1) w = login e (JStr em2) (JStr pw2) w \<and>
         login e (JStr em1) (JStr pw1) w =
           (\<lparr>status = 400, body = Message ''Invalid credentials''\<rparr>, w)"
  using assms
  by (simp add: login_def compare_def text_param_def io_defs db_get_user_by_email_def)

subsection \<open>The sample store with the long item count\<close>


section \<open>Claims about the Auth Guard and the Auth Flow\<close>

text \<open>
  C1. The guard is to answer a request that carries no bearer token with 401 and the
  "no token" message, and a request whose token fails verification with 401 and the
  "invalid token" message. A request with no authorization header at all carries no
  token, yet the guard answers it with the message of an invalid token: reading the
  token throws before the check for a missing token is reached, and the \<open>catch\<close> block
  answers. (Lemmas \<open>auth_no_token\<close>, \<open>auth_verify_failure\<close> and \<open>guard_stops_request\<close> give
  the cases in which the guard does what the claim says.)
\<close>

theorem auth_missing_header_token_not_valid:
  "auth e None = Respond \<lparr>status = 401, body = Message ''Token is not valid''\<rparr>"
  by (simp add: auth_def auth_try_def)

text \<open>
  C2. The two failures of login are to be answered alike, and for a password that is a
  string they are (lemma \<open>login_failures_same_for_strings\<close>). But the handler tests the
  password for truthiness only. With a password that is not a string, such as the
  number 12345, the comparison with the stored hash throws when the email has a user, and
  the answer is 500 "Server error"; the same password with an email that has no user is
  answered 400 "Invalid credentials". So the answer tells whether the email exists.
\<close>

theorem login_non_string_password_reveals_email:
  assumes "faults w = []" and "truthy em1" and "truthy em2" and "truthy pw"
    and "\<forall>p. pw \<noteq> JStr p"
    and "find (\<lambda>u. email u = text_param e em1) (users w) = None"
    and "find (\<lambda>u. email u = text_param e em2) (users w) = Some u"
  shows "login e em1 pw w = (\<lparr>status = 400, body = Message ''Invalid credentials''\<rparr>, w) \<and>
         login e em2 pw w = (\<lparr>status = 500, body = Message ''Server error''\<rparr>, w)"
  using assms
  by (cases pw) (simp_all add: login_def compare_def io_defs db_get_user_by_email_def)

theorem login_non_string_password_reveals_email_witness:
  "login sample_env (JStr ''nobody@example.com'') (JNum 12345) sample_world =
     (\<lparr>status = 400, body = Message ''Invalid credentials''\<rparr>, sample_world) \<and>
   login sample_env (JStr ''admin@example.com'') (JNum 12345) sample_world =
     (\<lparr>status = 500, body = Message ''Server error''\<rparr>, sample_world)"
proof -
  have "faults sample_world = []"
    and "truthy (JStr ''nobody@example.com'')" and "truthy (JStr ''admin@example.com'')"
    and "truthy (JNum 12345)" and "\<forall>p. JNum 12345 \<noteq> JStr p"
    and "find (\<lambda>u. email u = text_param sample_env (JStr ''nobody@example.com''))
           (users sample_world) = None"
    and "find (\<lambda>u. email u = text_param sample_env (JStr ''admin@example.com''))
           (users sample_world) = Some sample_admin"
    by (simp_all add: text_param_def sample_defs)
  then show ?thesis by (rule login_non_string_password_reveals_email)
qed

text \<open>
  C7. Register with all three fields non-empty looks for a user with the email first and
  for a user with the username second. A user with the email gives the conflict that
  names the email, also when the username is taken too; otherwise a user with the
  username gives the conflict that names the username. Either way the world, and with it
  the users table, is unchanged.
\<close>

theorem register_conflict_order:
  assumes "faults w = []" and "un \<noteq> []" and "em \<noteq> []" and "pw \<noteq> []"
  shows "(find (\<lambda>u. email u = em) (users w) \<noteq> None \<longrightarrow>
            register e (Some un) (Some em) (Some pw) w =
              (\<lparr>status = 400, body = Message ''Email already in use''\<rparr>, w)) \<and>
         (find (\<lambda>u. email u = em) (users w) = None \<and>
          find (\<lambda>u. username u = un) (users w) \<noteq> None \<longrightarrow>
            register e (Some un) (Some em) (Some pw) w =
              (\<lparr>status = 400, body = Message ''Username already taken''\<rparr>, w))"
  using assms
  by (auto simp add: register_def io_defs db_get_user_by_email_def db_get_user_by_username_def)

theorem register_conflict_order_witness:
  "register sample_env (Some ''admin'') (Some ''admin@example.com'') (Some ''secret'')
       sample_world =
     (\<lparr>status = 400, body = Message ''Email already in use''\<rparr>, sample_world) \<and>
   register sample_env (Some ''admin'') (Some ''other@example.com'') (Some ''secret'')
       sample_world =
     (\<lparr>status = 400, body = Message ''Username already taken''\<rparr>, sample_world)"
proof -
  have w: "faults sample_world = []"
    and e1: "find (\<lambda>u. email u = ''admin@example.com'') (users sample_world) \<noteq> None"
    and e2: "find (\<lambda>u. email u = ''other@example.com'') (users sample_world) = None"
    and u2: "find (\<lambda>u. username u = ''admin'') (users sample_world) \<noteq> None"
    by (simp_all add: sample_defs)
  from e1 register_conflict_order [OF w, of "''admin''" "''admin@example.com''" "''secret''"]
  have "register sample_env (Some ''admin'') (Some ''admin@example.com'') (Some ''secret'')
          sample_world =
        (\<lparr>status = 400, body = Message ''Email already in use''\<rparr>, sample_world)"
    by simp
  moreover
  from e2 u2 register_conflict_order [OF w, of "''admin''" "''other@example.com''" "''secret''"]
  have "register sample_env (Some ''admin'') (Some ''other@example.com'') (Some ''secret'')
          sample_world =
        (\<lparr>status = 400, body = Message ''Username already taken''\<rparr>, sample_world)"
    by simp
  ultimately show ?thesis by simp
qed

section \<open>Claims about the Category Manager\<close>

text \<open>
  C3, as stated, fails: an upload that is not an image is not answered with a validation
  error (status 400). The filter's error goes to the framework's final handler, which
  answers 500.
\<close>

theorem upload_rejected_answers_500:
  "fst (route_post sample_env (sample_request (Some sample_pdf)) sample_world) =
     \<lparr>status = 500, body = ErrorPage (Error ''Not an image! Please upload only images.'')\<rparr> \<and>
   status (fst (route_post sample_env (sample_request (Some sample_pdf)) sample_world)) \<noteq> 400"
  by (simp add: route_post_def with_upload_def upload_single_def final_handler_def
        fileFilter_def auth_def auth_try_def sample_defs)

text \<open>
  C3, amended. For an authenticated create request whose image part is not image content
  or has more bytes than the limit of 5 MiB, the upload middleware ends the request with
  an error before the handler runs: no category row is inserted, and the answer is that
  of the framework's final handler, status 500.
\<close>

theorem upload_rejected_before_insert:
  assumes "auth e (authorization req) = Next decoded" and "image_part req = Some file"
    and "\<not> fileFilter file \<or> size_bytes file > fileSize_limit"
  shows "fst (route_post e req w) =
           final_handler (if \<not> fileFilter file
                          then Error ''Not an image! Please upload only images.''
                          else MulterError ''LIMIT_FILE_SIZE'') \<and>
         status (fst (route_post e req w)) = 500 \<and>
         categories (snd (route_post e req w)) = categories w \<and>
         next_category_id (snd (route_post e req w)) = next_category_id w"
  using assms
  by (auto simp add: route_post_def with_upload_def upload_single_def final_handler_def)

theorem upload_rejected_before_insert_witness:
  "status (fst (route_post sample_env
       (sample_request (Some (sample_png\<lparr>size_bytes := 5242881\<rparr>))) sample_world)) = 500 \<and>
   categories (snd (route_post sample_env
       (sample_request (Some (sample_png\<lparr>size_bytes := 5242881\<rparr>))) sample_world)) =
     [sample_summer, sample_winter]"
proof -
  let ?big = "sample_png\<lparr>size_bytes := 5242881\<rparr>"
  have a: "auth sample_env (authorization (sample_request (Some ?big))) = Next sample_claims"
    by (simp add: auth_def auth_try_def sample_defs)
  have p: "image_part (sample_request (Some ?big)) = Some ?big"
    by (simp add: sample_defs)
  have r: "\<not> fileFilter ?big \<or> size_bytes ?big > fileSize_limit"
    by (simp add: fileSize_limit_def)
  have c: "categories sample_world = [sample_summer, sample_winter]"
    by (simp add: sample_defs)
  from upload_rejected_before_insert [OF a p r, of sample_world]
  have "status (fst (route_post sample_env (sample_request (Some ?big)) sample_world)) = 500"
    and "categories (snd (route_post sample_env (sample_request (Some ?big)) sample_world)) =
           categories sample_world"
    by blast+
  with c show ?thesis by simp
qed







text \<open>
  C6, as stated, fails: the store has no uniqueness constraint on the name of a category.
  An insert of a name that a row already has succeeds, and the table then holds the name
  twice.
\<close>

theorem store_accepts_duplicate_name:
  "fst (db_insert_category sample_env ''Summer Clothes'' (JNum 0) None sample_world) = Inr 3 \<and>
   map cat_name
     (categories (snd (db_insert_category sample_env ''Summer Clothes'' (JNum 0) None
        sample_world))) =
     [''Summer Clothes'', ''Winter Collection'', ''Summer Clothes'']"
  by (simp add: db_insert_category_def io_defs sample_defs)

text \<open>
  C6, amended. It is the create handler that looks the name up before it inserts:
  whenever some row of the table has the name, a create request with that name is
  answered 400 with "Category already exists" and leaves the world as it was. The store's
  insert, in the same world, accepts the name and appends a second row with it.
\<close>

theorem duplicate_name_refused_by_handler:
  assumes "faults w = []" and "nm \<noteq> []" and "c \<in> set (categories w)" and "cat_name c = nm"
  shows "categories_post e (Some nm) itemCount file w =
           (\<lparr>status = 400, body = Message ''Category already exists''\<rparr>, w) \<and>
         fst (db_insert_category e nm cnt img w) = Inr (next_category_id w) \<and>
         categories (snd (db_insert_category e nm cnt img w)) =
           categories w @
             [\<lparr>cat_id = next_category_id w, cat_name = nm, item_count = integer_column e cnt,
               cat_image = img, created_at = now w, updated_at = now w\<rparr>]"
proof -
  from find_cat_name_member [OF assms(3,4)]
  obtain x where "find (\<lambda>c. cat_name c = nm) (categories w) = Some x" by auto
  with assms(1,2) have "categories_post e (Some nm) itemCount file w =
      (\<lparr>status = 400, body = Message ''Category already exists''\<rparr>, w)"
    by (simp add: categories_post_def io_defs db_get_category_by_name_def)
  moreover from assms(1) have "fst (db_insert_category e nm cnt img w) = Inr (next_category_id w)"
    and "categories (snd (db_insert_category e nm cnt img w)) =
           categories w @
             [\<lparr>cat_id = next_category_id w, cat_name = nm, item_count = integer_column e cnt,
               cat_image = img, created_at = now w, updated_at = now w\<rparr>]"
    by (simp_all add: db_insert_category_def io_defs)
  ultimately show ?thesis by simp
qed

theorem duplicate_name_refused_by_handler_witness:
  "categories_post sample_env (Some ''Summer Clothes'') (JNum 4) None sample_world =
     (\<lparr>status = 400, body = Message ''Category already exists''\<rparr>, sample_world) \<and>
   fst (db_insert_category sample_env ''Summer Clothes'' (JNum 4) None sample_world) = Inr 3"
proof -
  have "faults sample_world = []" and "''Summer Clothes'' \<noteq> []"
    and "sample_summer \<in> set (categories sample_world)"
    and "cat_name sample_summer = ''Summer Clothes''"
    and n: "next_category_id sample_world = 3"
    by (simp_all add: sample_defs)
  from duplicate_name_refused_by_handler [OF this(1-4), of sample_env "JNum 4" None "JNum 4" None] n
  show ?thesis by simp
qed

text \<open>
  C8. Delete of an existing category, when no I/O fault occurs, answers 200 with
  "Category deleted successfully"; afterwards no row has the id, so a further delete or
  update of the id answers 404; the file a non-empty image reference names is not in the
  uploads directory afterwards; and when that file was missing already, the delete
  succeeds all the same and leaves the directory as it was.
\<close>

theorem delete_removes_row_and_file:
  assumes "faults w = []" and "find (\<lambda>c. cat_id c = i) (categories w) = Some c"
  shows "fst (categories_delete i w) =
           \<lparr>status = 200, body = Message ''Category deleted successfully''\<rparr> \<and>
         find (\<lambda>c. cat_id c = i) (categories (snd (categories_delete i w))) = None \<and>
         (\<forall>f. cat_image c = Some f \<and> f \<noteq> [] \<longrightarrow> f \<notin> files (snd (categories_delete i w))) \<and>
         (\<forall>f. cat_image c = Some f \<and> f \<notin> files w \<longrightarrow>
              files (snd (categories_delete i w)) = files w) \<and>
         fst (categories_delete i (snd (categories_delete i w))) =
           \<lparr>status = 404, body = Message ''Category not found''\<rparr> \<and>
         fst (categories_put e i name_field itemCount file (snd (categories_delete i w))) =
           \<lparr>status = 404, body = Message ''Category not found''\<rparr>"
proof -
  let ?w' = "snd (categories_delete i w)"
  note d = categories_delete_done [OF assms]
  have gone: "find (\<lambda>c. cat_id c = i) (categories ?w') = None"
    by (simp add: d find_cat_id_filter)
  have quiet: "faults ?w' = []"
    using assms(1) by (simp add: d)
  have "\<forall>f. cat_image c = Some f \<and> f \<noteq> [] \<longrightarrow> f \<notin> files ?w'"
    by (simp add: d)
  moreover have "\<forall>f. cat_image c = Some f \<and> f \<notin> files w \<longrightarrow> files ?w' = files w"
    by (simp add: d)
  moreover have "fst (categories_delete i w) =
      \<lparr>status = 200, body = Message ''Category deleted successfully''\<rparr>"
    by (simp add: d)
  ultimately show ?thesis
    using gone categories_delete_missing [OF quiet gone]
      categories_put_missing [OF quiet gone, of e name_field itemCount "file"]
    by simp
qed

theorem delete_removes_row_and_file_witness:
  "fst (categories_delete 1 sample_world) =
     \<lparr>status = 200, body = Message ''Category deleted successfully''\<rparr> \<and>
   find (\<lambda>c. cat_id c = 1) (categories (snd (categories_delete 1 sample_world))) = None \<and>
   ''summer.jpg'' \<notin> files (snd (categories_delete 1 sample_world)) \<and>
   fst (categories_delete 2 sample_world) =
     \<lparr>status = 200, body = Message ''Category deleted successfully''\<rparr> \<and>
   files (snd (categories_delete 2 sample_world)) = files sample_world"
proof -
  have w: "faults sample_world = []"
    and c1: "find (\<lambda>c. cat_id c = 1) (categories sample_world) = Some sample_summer"
    and c2: "find (\<lambda>c. cat_id c = 2) (categories sample_world) = Some sample_winter"
    and i1: "cat_image sample_summer = Some ''summer.jpg''"
    and i2: "cat_image sample_winter = Some ''winter.jpg''"
    and m2: "''winter.jpg'' \<notin> files sample_world"
    by (simp_all add: sample_defs)
  from delete_removes_row_and_file [OF w c1] i1
  have "fst (categories_delete 1 sample_world) =
          \<lparr>status = 200, body = Message ''Category deleted successfully''\<rparr>"
    and "find (\<lambda>c. cat_id c = 1) (categories (snd (categories_delete 1 sample_world))) = None"
    and "''summer.jpg'' \<notin> files (snd (categories_delete 1 sample_world))"
    by simp_all
  moreover
  from delete_removes_row_and_file [OF w c2] i2 m2
  have "fst (categories_delete 2 sample_world) =
          \<lparr>status = 200, body = Message ''Category deleted successfully''\<rparr>"
    and "files (snd (categories_delete 2 sample_world)) = files sample_world"
    by simp_all
  ultimately show ?thesis by simp
qed

text \<open>
  C9. An authenticated update of a category that references a stored file \<open>old\<close>, with an
  upload that the filter accepts and that has fewer bytes than the limit, answers 200,
  makes the generated file name the row's image reference, and only adds that file to the
  uploads directory: \<open>old\<close> is still there. The update and create handlers never change
  the uploads directory, whatever the request, the world and the faults are; of the
  handlers only delete removes a file.
\<close>

theorem update_keeps_old_file:
  assumes "faults w = []" and "auth e (authorization req) = Next decoded"
    and "find (\<lambda>c. cat_id c = i) (categories w) = Some c"
    and "cat_image c = Some old" and "old \<in> files w"
    and "image_part req = Some part" and "fileFilter part"
    and "size_bytes part < fileSize_limit"
  shows "status (fst (route_put e i req w)) = 200 \<and>
         map_option cat_image
           (find (\<lambda>c. cat_id c = i) (categories (snd (route_put e i req w)))) =
           Some (Some (filename e part)) \<and>
         old \<in> files (snd (route_put e i req w)) \<and>
         files (snd (route_put e i req w)) = insert (filename e part) (files w) \<and>
         files (snd (categories_put e' i' name_field itemCount file v)) = files v \<and>
         files (snd (categories_post e' name_field itemCount file v)) = files v"
proof -
  let ?w1 = "w\<lparr>files := insert (filename e part) (files w)\<rparr>"
  have r: "route_put e i req w =
      categories_put e i (body_name req) (body_itemCount req) (Some (filename e part)) ?w1"
    using assms(2,6,7,8) by (simp add: route_put_def with_upload_def upload_single_def)
  have q: "faults ?w1 = []" and f: "find (\<lambda>c. cat_id c = i) (categories ?w1) = Some c"
    using assms(1,3) by simp_all
  from categories_put_updated [OF q f, of e "body_name req" "body_itemCount req"
      "Some (filename e part)"]
    categories_put_files [of e i "body_name req" "body_itemCount req" "Some (filename e part)" ?w1]
    assms(5)
  have "status (fst (route_put e i req w)) = 200"
    and "map_option cat_image
           (find (\<lambda>c. cat_id c = i) (categories (snd (route_put e i req w)))) =
           Some (Some (filename e part))"
    and "old \<in> files (snd (route_put e i req w))"
    and "files (snd (route_put e i req w)) = insert (filename e part) (files w)"
    by (simp_all add: r)
  then show ?thesis
    by (simp add: categories_put_files categories_post_files)
qed

theorem update_keeps_old_file_witness:
  "status (fst (route_put sample_env 1 (sample_request (Some sample_png)) sample_world)) = 200 \<and>
   map_option cat_image
     (find (\<lambda>c. cat_id c = 1)
        (categories (snd (route_put sample_env 1 (sample_request (Some sample_png))
           sample_world)))) =
     Some (Some (filename sample_env sample_png)) \<and>
   ''summer.jpg'' \<in> files (snd (route_put sample_env 1 (sample_request (Some sample_png))
     sample_world))"
proof -
  have "faults sample_world = []"
    and "auth sample_env (authorization (sample_request (Some sample_png))) = Next sample_claims"
    and "find (\<lambda>c. cat_id c = 1) (categories sample_world) = Some sample_summer"
    and "cat_image sample_summer = Some ''summer.jpg''"
    and "''summer.jpg'' \<in> files sample_world"
    and "image_part (sample_request (Some sample_png)) = Some sample_png"
    and "fileFilter sample_png"
    and "size_bytes sample_png < fileSize_limit"
    by (simp_all add: auth_def auth_try_def fileFilter_def fileSize_limit_def sample_defs)
  from update_keeps_old_file [OF this, of sample_env 0 None JUndefined None sample_world]
  show ?thesis by blast
qed

text \<open>
  C10. Delete removes the file before it deletes the row. When opening the database, the
  lookup and the removal of the file succeed and the row deletion throws, the answer is
  500, the row is still there with its image reference, and the file it names is gone.
  When instead the removal of the file throws, the row deletion is never tried: row and
  file both remain.
\<close>

theorem delete_not_atomic:
  assumes "find (\<lambda>c. cat_id c = i) (categories w) = Some c"
    and "cat_image c = Some f" and "f \<noteq> []" and "f \<in> files w"
  shows "(faults w = False # False # False # True # rest \<longrightarrow>
            fst (categories_delete i w) = \<lparr>status = 500, body = Message ''Server error''\<rparr> \<and>
            find (\<lambda>c. cat_id c = i) (categories (snd (categories_delete i w))) = Some c \<and>
            f \<notin> files (snd (categories_delete i w))) \<and>
         (faults w = False # False # True # rest \<longrightarrow>
            fst (categories_delete i w) = \<lparr>status = 500, body = Message ''Server error''\<rparr> \<and>
            find (\<lambda>c. cat_id c = i) (categories (snd (categories_delete i w))) = Some c \<and>
            f \<in> files (snd (categories_delete i w)))"
  using assms
  by (simp add: categories_delete_def io_defs db_get_category_by_id_def db_delete_category_def
        remove_image_def fs_existsSync_def fs_unlinkSync_def)

theorem delete_not_atomic_witness:
  "fst (categories_delete 1 (sample_world\<lparr>faults := [False, False, False, True]\<rparr>)) =
     \<lparr>status = 500, body = Message ''Server error''\<rparr> \<and>
   find (\<lambda>c. cat_id c = 1)
     (categories (snd (categories_delete 1
        (sample_world\<lparr>faults := [False, False, False, True]\<rparr>)))) = Some sample_summer \<and>
   cat_image sample_summer = Some ''summer.jpg'' \<and>
   ''summer.jpg'' \<notin> files (snd (categories_delete 1
     (sample_world\<lparr>faults := [False, False, False, True]\<rparr>)))"
proof -
  let ?w = "sample_world\<lparr>faults := [False, False, False, True]\<rparr>"
  have c: "find (\<lambda>c. cat_id c = 1) (categories ?w) = Some sample_summer"
    and i: "cat_image sample_summer = Some ''summer.jpg''"
    and n: "''summer.jpg'' \<noteq> []"
    and f: "''summer.jpg'' \<in> files ?w"
    and s: "faults ?w = False # False # False # True # []"
    by (simp_all add: sample_defs)
  from delete_not_atomic [OF c i n f, of "[]"] s i show ?thesis
    by blast
qed

end
